theory Spec2Isabelle
  imports Main
begin

section \<open>The HTTP access layer of the frontend (services/api.js)\<close>

text \<open>
  The module wraps an axios instance with a request interceptor (bearer token), a response
  interceptor (error messages, session teardown on 401), a retry helper for rate limits and
  one exported function per resource and verb. Asynchronous code is modelled sequentially:
  one call runs from start to end, threading an explicit world. The world holds what the
  module reads and writes outside itself: the browser's \<open>localStorage\<close>, the current
  \<open>window.location.pathname\<close>, the assignments made to \<open>window.location.href\<close>, the delays
  awaited through \<open>setTimeout\<close>, the request configurations handed to the network and the
  state of the network itself. \<open>console.error\<close> and \<open>console.warn\<close> are not modelled,
  nor is the base URL, which no operation reads.
\<close>

subsection \<open>JavaScript values\<close>

text \<open>
  Values that travel as JSON bodies, plus \<open>undefined\<close>. Numbers are the integers among
  the JavaScript numbers. An object is its list of properties; a lookup takes the first
  binding of a key. Strings are lists of code units below 256, which covers every literal
  of the module (the accented letters of its Spanish messages are written \<open>CHR 0x..\<close>).
\<close>

datatype jsval =
    JUndefined
  | JNull
  | JBool bool
  | JNum int
  | JStr string
  | JArr "jsval list"
  | JObj "(string \<times> jsval) list"

text \<open>Truthiness, as \<open>if (v)\<close> and \<open>v || w\<close> test it.\<close>

fun truthy :: "jsval \<Rightarrow> bool" where
  "truthy JUndefined = False"
| "truthy JNull = False"
| "truthy (JBool b) = b"
| "truthy (JNum n) = (n \<noteq> 0)"
| "truthy (JStr s) = (s \<noteq> [])"
| "truthy (JArr xs) = True"
| "truthy (JObj kvs) = True"

definition js_or :: "jsval \<Rightarrow> jsval \<Rightarrow> jsval" where
  "js_or a b = (if truthy a then a else b)"

text \<open>
  \<open>v?.k\<close>: \<open>undefined\<close> on \<open>null\<close> and \<open>undefined\<close>, the property otherwise. The module
  only reads the keys \<open>error\<close> and \<open>data\<close>, which no string, number, boolean or array has.
\<close>

fun opt_member :: "jsval \<Rightarrow> string \<Rightarrow> jsval" where
  "opt_member (JObj kvs) k = (case map_of kvs k of Some v \<Rightarrow> v | None \<Rightarrow> JUndefined)"
| "opt_member v k = JUndefined"

text \<open>\<open>v.k\<close>: a TypeError on \<open>null\<close> and \<open>undefined\<close>.\<close>

datatype type_error = CannotReadProperties

fun member :: "jsval \<Rightarrow> string \<Rightarrow> type_error + jsval" where
  "member JUndefined k = Inl CannotReadProperties"
| "member JNull k = Inl CannotReadProperties"
| "member v k = Inr (opt_member v k)"

text \<open>Template literals print a number in decimal.\<close>

definition digit_char :: "nat \<Rightarrow> char" where
  "digit_char d = char_of (48 + d)"

function show_nat :: "nat \<Rightarrow> string" where
  "show_nat n = (if n < 10 then [digit_char n] else show_nat (n div 10) @ [digit_char (n mod 10)])"
  by pat_completeness auto
termination
  by (relation "measure (\<lambda>n. n)") auto

declare show_nat.simps [simp del]

definition show_int :: "int \<Rightarrow> string" where
  "show_int i = (if i < 0 then ''-'' @ show_nat (nat (- i)) else show_nat (nat i))"

subsection \<open>Requests, responses and errors\<close>

datatype http_verb = GET | POST | PUT | DELETE

text \<open>The request configuration of axios; a body that is not passed is \<open>undefined\<close>.\<close>

record request_config =
  verb :: http_verb
  url :: string
  body :: jsval
  headers :: "string \<rightharpoonup> string"
  timeout :: int

record response =
  status :: int
  data :: jsval

text \<open>
  The error axios rejects with, as far as the module reads it: \<open>error.response\<close> (absent
  when the server never answered), whether \<open>error.request\<close> is set, and \<open>error.code\<close>.
\<close>

record axios_error =
  response :: "response option"
  request :: bool
  code :: "string option"

text \<open>\<open>{ ...error, userMessage: errorMessage, originalError: error }\<close>\<close>

record enhanced_error = axios_error +
  userMessage :: jsval
  originalError :: axios_error

datatype ('e, 'a) completion = Returned 'a | Threw 'e

subsection \<open>The world\<close>

record 'n world =
  localStorage :: "string \<rightharpoonup> string"
  pathname :: string
  navigations :: "string list"
  timers :: "int list"
  sent :: "request_config list"
  net :: 'n

text \<open>
  The network is a parameter: given a configuration and its own state it resolves with a
  response or rejects with an error. Which statuses axios rejects is axios's business.
\<close>

type_synonym 'n transport = "request_config \<Rightarrow> 'n \<Rightarrow> (axios_error + response) \<times> 'n"

definition removeItem :: "string \<Rightarrow> 'n world \<Rightarrow> 'n world" where
  "removeItem k w = w\<lparr>localStorage := (localStorage w)(k := None)\<rparr>"

definition assign_href :: "string \<Rightarrow> 'n world \<Rightarrow> 'n world" where
  "assign_href target w = w\<lparr>navigations := navigations w @ [target]\<rparr>"

definition setTimeout :: "int \<Rightarrow> 'n world \<Rightarrow> 'n world" where
  "setTimeout ms w = w\<lparr>timers := timers w @ [ms]\<rparr>"

subsection \<open>The axios instance and its interceptors\<close>

definition api_config :: "http_verb \<Rightarrow> string \<Rightarrow> jsval \<Rightarrow> request_config" where
  "api_config v u b =
     \<lparr>verb = v, url = u, body = b,
      headers = [''Content-Type'' \<mapsto> ''application/json''],
      timeout = 10000\<rparr>"

text \<open>Request interceptor: \<open>getItem\<close> gives \<open>null\<close> or a string, and \<open>if (token)\<close> tests it.\<close>

definition request_interceptor :: "'n world \<Rightarrow> request_config \<Rightarrow> request_config" where
  "request_interceptor w config =
     (case localStorage w ''token'' of
        None \<Rightarrow> config
      | Some token \<Rightarrow>
          if token \<noteq> []
          then config\<lparr>headers := (headers config)(''Authorization'' \<mapsto> ''Bearer '' @ token)\<rparr>
          else config)"

text \<open>The 401 branch of the response interceptor, after the message is set.\<close>

definition session_teardown :: "'n world \<Rightarrow> 'n world" where
  "session_teardown w =
     (let w1 = removeItem ''user'' (removeItem ''token'' w)
      in if pathname w1 \<noteq> ''/login'' then assign_href ''/login'' w1 else w1)"

text \<open>
  The rejection handler of the response interceptor, in two definitions: the value its
  \<open>switch\<close> and its network branch leave in \<open>errorMessage\<close>, and the handler itself, which
  applies the one side effect of the \<open>switch\<close> (the 401 case) and builds \<open>enhancedError\<close>.
\<close>

definition errorMessage_of :: "axios_error \<Rightarrow> jsval" where
  "errorMessage_of error =
     (case response error of
        Some r \<Rightarrow>
          (if status r = 400 then
             js_or (opt_member (data r) ''error'') (JStr (''Datos inv'' @ [CHR 0xE1] @ ''lidos''))
           else if status r = 401 then
             JStr (''Sesi'' @ [CHR 0xF3] @ ''n expirada. Por favor, inicia sesi''
                   @ [CHR 0xF3] @ ''n nuevamente'')
           else if status r = 403 then
             JStr (''No tienes permisos para realizar esta acci'' @ [CHR 0xF3] @ ''n'')
           else if status r = 404 then
             JStr ''Recurso no encontrado''
           else if status r = 422 then
             js_or (opt_member (data r) ''error'')
                   (JStr (''Datos de entrada inv'' @ [CHR 0xE1] @ ''lidos''))
           else if status r = 429 then
             JStr (''Demasiadas solicitudes. Reintentando autom'' @ [CHR 0xE1]
                   @ ''ticamente...'')
           else if status r = 500 then
             JStr (''Error interno del servidor. Int'' @ [CHR 0xE9] @ ''ntalo m''
                   @ [CHR 0xE1] @ ''s tarde'')
           else
             js_or (opt_member (data r) ''error'') (JStr (''Error '' @ show_int (status r))))
      | None \<Rightarrow>
          if request error then
            (if code error = Some ''ECONNABORTED'' then
               JStr (''La solicitud ha tardado demasiado. Verifica tu conexi''
                     @ [CHR 0xF3] @ ''n'')
             else
               JStr (''Error de conexi'' @ [CHR 0xF3] @ ''n. Verifica tu conexi''
                     @ [CHR 0xF3] @ ''n a internet''))
          else JStr ''Ha ocurrido un error inesperado'')"

definition response_rejected :: "axios_error \<Rightarrow> 'n world \<Rightarrow> enhanced_error \<times> 'n world" where
  "response_rejected error w =
     (let w' = (case response error of
                  Some r \<Rightarrow> if status r = 401 then session_teardown w else w
                | None \<Rightarrow> w);
          enhancedError =
            \<lparr>response = response error, request = request error, code = code error,
             userMessage = errorMessage_of error, originalError = error\<rparr>
      in (enhancedError, w'))"

text \<open>
  One call of \<open>api.get\<close>, \<open>api.post\<close>, \<open>api.put\<close> or \<open>api.delete\<close>: the request interceptor,
  the network, then the response interceptor (the identity on a response).
\<close>

definition api_request ::
  "'n transport \<Rightarrow> http_verb \<Rightarrow> string \<Rightarrow> jsval \<Rightarrow> 'n world
     \<Rightarrow> (enhanced_error + response) \<times> 'n world" where
  "api_request send v u b w =
     (let config = request_interceptor w (api_config v u b);
          (outcome, n') = send config (net w);
          w1 = w\<lparr>sent := sent w @ [config], net := n'\<rparr>
      in case outcome of
           Inr res \<Rightarrow> (Inr res, w1)
         | Inl error \<Rightarrow>
             (let (enhancedError, w2) = response_rejected error w1
              in (Inl enhancedError, w2)))"

definition api_get :: "'n transport \<Rightarrow> string \<Rightarrow> 'n world \<Rightarrow> (enhanced_error + response) \<times> 'n world" where
  "api_get send u = api_request send GET u JUndefined"

definition api_post :: "'n transport \<Rightarrow> string \<Rightarrow> jsval \<Rightarrow> 'n world \<Rightarrow> (enhanced_error + response) \<times> 'n world" where
  "api_post send u b = api_request send POST u b"

definition api_put :: "'n transport \<Rightarrow> string \<Rightarrow> jsval \<Rightarrow> 'n world \<Rightarrow> (enhanced_error + response) \<times> 'n world" where
  "api_put send u b = api_request send PUT u b"

definition api_delete :: "'n transport \<Rightarrow> string \<Rightarrow> 'n world \<Rightarrow> (enhanced_error + response) \<times> 'n world" where
  "api_delete send u = api_request send DELETE u JUndefined"

subsection \<open>The retry helper\<close>

text \<open>\<open>error.response?.status\<close>\<close>

definition status_of :: "enhanced_error \<Rightarrow> int option" where
  "status_of error = (case response error of Some r \<Rightarrow> Some (status r) | None \<Rightarrow> None)"

text \<open>
  The \<open>for\<close> loop of \<open>retryRequest\<close> from index \<open>i\<close> on. Falling out of the loop returns
  \<open>undefined\<close>, which is \<open>Returned None\<close>.
\<close>

function retry_loop ::
  "('n world \<Rightarrow> (enhanced_error + response) \<times> 'n world) \<Rightarrow> int \<Rightarrow> int \<Rightarrow> nat \<Rightarrow> 'n world
     \<Rightarrow> (enhanced_error, response option) completion \<times> 'n world" where
  "retry_loop fn retries delay i w =
     (if int i < retries then
        (case fn w of
           (Inr res, w1) \<Rightarrow> (Returned (Some res), w1)
         | (Inl error, w1) \<Rightarrow>
             if status_of error = Some 429 \<and> int i < retries - 1
             then retry_loop fn retries delay (Suc i) (setTimeout (delay * 2 ^ i) w1)
             else (Threw error, w1))
      else (Returned None, w))"
  by pat_completeness auto
termination
  by (relation "measure (\<lambda>(fn, retries, delay, i, w). nat (retries - int i))") auto

declare retry_loop.simps [simp del]

definition retryRequest ::
  "('n world \<Rightarrow> (enhanced_error + response) \<times> 'n world) \<Rightarrow> int \<Rightarrow> int \<Rightarrow> 'n world
     \<Rightarrow> (enhanced_error, response option) completion \<times> 'n world" where
  "retryRequest fn retries delay w = retry_loop fn retries delay 0 w"

subsection \<open>The exported operations\<close>

text \<open>
  What a \<open>catch (err)\<close> of an operation can hold: the rejection of the axios call, or the
  TypeError of reading a property of \<open>null\<close> or \<open>undefined\<close> inside the \<open>try\<close>.
\<close>

datatype caught = Rejected enhanced_error | TypeError type_error

text \<open>The object thrown when the failure has no truthy response body.\<close>

definition connection_fallback :: jsval where
  "connection_fallback = JObj [(''error'', JStr (''Error de conexi'' @ [CHR 0xF3] @ ''n''))]"

text \<open>\<open>throw err.response?.data || { ... }\<close>\<close>

definition rethrown :: "caught \<Rightarrow> jsval" where
  "rethrown err =
     js_or (case err of
              Rejected e \<Rightarrow> (case response e of Some r \<Rightarrow> data r | None \<Rightarrow> JUndefined)
            | TypeError t \<Rightarrow> JUndefined)
           connection_fallback"

text \<open>\<open>await api.post(...)\<close> without the retry helper.\<close>

definition awaited ::
  "(enhanced_error + response) \<times> 'n world
     \<Rightarrow> (enhanced_error, response option) completion \<times> 'n world" where
  "awaited p = (case p of (Inr res, w) \<Rightarrow> (Returned (Some res), w) | (Inl e, w) \<Rightarrow> (Threw e, w))"

text \<open>
  \<open>try { const res = ...; return res.data.data; } catch (err) { throw ... }\<close>: the property
  reads are inside the \<open>try\<close>, so their TypeError is caught as well.
\<close>

definition return_data_data ::
  "(enhanced_error, response option) completion \<times> 'n world
     \<Rightarrow> (jsval, jsval) completion \<times> 'n world" where
  "return_data_data p =
     (case p of
        (Threw e, w) \<Rightarrow> (Threw (rethrown (Rejected e)), w)
      | (Returned None, w) \<Rightarrow> (Threw (rethrown (TypeError CannotReadProperties)), w)
      | (Returned (Some res), w) \<Rightarrow>
          (case member (data res) ''data'' of
             Inl t \<Rightarrow> (Threw (rethrown (TypeError t)), w)
           | Inr v \<Rightarrow> (Returned v, w)))"

text \<open>\<open>try { const res = ...; return res.data; } catch (err) { throw ... }\<close>\<close>

definition return_data ::
  "(enhanced_error, response option) completion \<times> 'n world
     \<Rightarrow> (jsval, jsval) completion \<times> 'n world" where
  "return_data p =
     (case p of
        (Threw e, w) \<Rightarrow> (Threw (rethrown (Rejected e)), w)
      | (Returned None, w) \<Rightarrow> (Threw (rethrown (TypeError CannotReadProperties)), w)
      | (Returned (Some res), w) \<Rightarrow> (Returned (data res), w))"

text \<open>\<open>month ? `?month=${month}` : ""\<close>, for a month that is a string or \<open>undefined\<close>.\<close>

definition month_query :: "string option \<Rightarrow> string" where
  "month_query month =
     (case month of None \<Rightarrow> [] | Some m \<Rightarrow> if m \<noteq> [] then ''?month='' @ m else [])"

text \<open>
  The operations, in the order of the file. Identifiers are integers, printed by the
  template literal; payloads are any value. Every call of \<open>retryRequest\<close> leaves the
  defaults \<open>retries = 3\<close> and \<open>delay = 1000\<close>.
\<close>

definition login :: "'n transport \<Rightarrow> jsval \<Rightarrow> jsval \<Rightarrow> 'n world \<Rightarrow> (jsval, jsval) completion \<times> 'n world" where
  "login send email password w = return_data_data (awaited (api_post send ''/auth/login'' (JObj [(''email'', email), (''password'', password)]) w))"

definition getApartments :: "'n transport \<Rightarrow> 'n world \<Rightarrow> (jsval, jsval) completion \<times> 'n world" where
  "getApartments send w = return_data_data (retryRequest (api_get send ''/apartments'') 3 1000 w)"

definition createApartment :: "'n transport \<Rightarrow> jsval \<Rightarrow> 'n world \<Rightarrow> (jsval, jsval) completion \<times> 'n world" where
  "createApartment send apartmentData w = return_data_data (retryRequest (api_post send ''/apartments'' apartmentData) 3 1000 w)"

definition updateApartment :: "'n transport \<Rightarrow> int \<Rightarrow> jsval \<Rightarrow> 'n world \<Rightarrow> (jsval, jsval) completion \<times> 'n world" where
  "updateApartment send id' apartmentData w = return_data_data (retryRequest (api_put send (''/apartments/'' @ show_int id') apartmentData) 3 1000 w)"

definition deleteApartment :: "'n transport \<Rightarrow> int \<Rightarrow> 'n world \<Rightarrow> (jsval, jsval) completion \<times> 'n world" where
  "deleteApartment send id' w = return_data (retryRequest (api_delete send (''/apartments/'' @ show_int id')) 3 1000 w)"

definition createPayment :: "'n transport \<Rightarrow> jsval \<Rightarrow> 'n world \<Rightarrow> (jsval, jsval) completion \<times> 'n world" where
  "createPayment send paymentData w = return_data_data (retryRequest (api_post send ''/payments'' paymentData) 3 1000 w)"

definition getPayments :: "'n transport \<Rightarrow> string option \<Rightarrow> 'n world \<Rightarrow> (jsval, jsval) completion \<times> 'n world" where
  "getPayments send month w = return_data_data (retryRequest (api_get send (''/payments'' @ month_query month)) 3 1000 w)"

definition registerPaymentAsPaid :: "'n transport \<Rightarrow> int \<Rightarrow> 'n world \<Rightarrow> (jsval, jsval) completion \<times> 'n world" where
  "registerPaymentAsPaid send paymentId w = return_data_data (retryRequest (api_put send (''/payments/'' @ show_int paymentId @ ''/pay'') (JObj [])) 3 1000 w)"

definition updatePayment :: "'n transport \<Rightarrow> int \<Rightarrow> jsval \<Rightarrow> 'n world \<Rightarrow> (jsval, jsval) completion \<times> 'n world" where
  "updatePayment send id' paymentData w = return_data_data (retryRequest (api_put send (''/payments/'' @ show_int id') paymentData) 3 1000 w)"

definition deletePayment :: "'n transport \<Rightarrow> int \<Rightarrow> 'n world \<Rightarrow> (jsval, jsval) completion \<times> 'n world" where
  "deletePayment send id' w = return_data (retryRequest (api_delete send (''/payments/'' @ show_int id')) 3 1000 w)"

definition getUsers :: "'n transport \<Rightarrow> 'n world \<Rightarrow> (jsval, jsval) completion \<times> 'n world" where
  "getUsers send w = return_data_data (retryRequest (api_get send ''/users'') 3 1000 w)"

definition getEvents :: "'n transport \<Rightarrow> 'n world \<Rightarrow> (jsval, jsval) completion \<times> 'n world" where
  "getEvents send w = return_data_data (retryRequest (api_get send ''/maintenance'') 3 1000 w)"

definition createEvent :: "'n transport \<Rightarrow> jsval \<Rightarrow> 'n world \<Rightarrow> (jsval, jsval) completion \<times> 'n world" where
  "createEvent send payload w = return_data_data (retryRequest (api_post send ''/maintenance'' payload) 3 1000 w)"

definition deleteEvent :: "'n transport \<Rightarrow> int \<Rightarrow> 'n world \<Rightarrow> (jsval, jsval) completion \<times> 'n world" where
  "deleteEvent send id' w = return_data (retryRequest (api_delete send (''/maintenance/'' @ show_int id')) 3 1000 w)"

definition updateEvent :: "'n transport \<Rightarrow> int \<Rightarrow> jsval \<Rightarrow> 'n world \<Rightarrow> (jsval, jsval) completion \<times> 'n world" where
  "updateEvent send id' payload w = return_data_data (retryRequest (api_put send (''/maintenance/'' @ show_int id') payload) 3 1000 w)"

definition updateMaintenanceStatus :: "'n transport \<Rightarrow> int \<Rightarrow> jsval \<Rightarrow> 'n world \<Rightarrow> (jsval, jsval) completion \<times> 'n world" where
  "updateMaintenanceStatus send id' status' w = return_data_data (retryRequest (api_put send (''/maintenance/'' @ show_int id' @ ''/status'') (JObj [(''status'', status')])) 3 1000 w)"

definition createUser :: "'n transport \<Rightarrow> jsval \<Rightarrow> 'n world \<Rightarrow> (jsval, jsval) completion \<times> 'n world" where
  "createUser send userData w = return_data_data (retryRequest (api_post send ''/users'' userData) 3 1000 w)"

definition updateUser :: "'n transport \<Rightarrow> int \<Rightarrow> jsval \<Rightarrow> 'n world \<Rightarrow> (jsval, jsval) completion \<times> 'n world" where
  "updateUser send id' userData w = return_data_data (retryRequest (api_put send (''/users/'' @ show_int id') userData) 3 1000 w)"

definition deleteUser :: "'n transport \<Rightarrow> int \<Rightarrow> 'n world \<Rightarrow> (jsval, jsval) completion \<times> 'n world" where
  "deleteUser send id' w = return_data (retryRequest (api_delete send (''/users/'' @ show_int id')) 3 1000 w)"

definition getNotifications :: "'n transport \<Rightarrow> 'n world \<Rightarrow> (jsval, jsval) completion \<times> 'n world" where
  "getNotifications send w = return_data_data (retryRequest (api_get send ''/notifications'') 3 1000 w)"

definition createNotification :: "'n transport \<Rightarrow> jsval \<Rightarrow> 'n world \<Rightarrow> (jsval, jsval) completion \<times> 'n world" where
  "createNotification send notificationData w = return_data_data (retryRequest (api_post send ''/notifications'' notificationData) 3 1000 w)"

definition updateNotification :: "'n transport \<Rightarrow> int \<Rightarrow> jsval \<Rightarrow> 'n world \<Rightarrow> (jsval, jsval) completion \<times> 'n world" where
  "updateNotification send id' notificationData w = return_data_data (retryRequest (api_put send (''/notifications/'' @ show_int id') notificationData) 3 1000 w)"

definition markNotificationAsRead :: "'n transport \<Rightarrow> int \<Rightarrow> 'n world \<Rightarrow> (jsval, jsval) completion \<times> 'n world" where
  "markNotificationAsRead send id' w = return_data_data (retryRequest (api_put send (''/notifications/'' @ show_int id' @ ''/read'') JUndefined) 3 1000 w)"

definition deleteNotification :: "'n transport \<Rightarrow> int \<Rightarrow> 'n world \<Rightarrow> (jsval, jsval) completion \<times> 'n world" where
  "deleteNotification send id' w = return_data (retryRequest (api_delete send (''/notifications/'' @ show_int id')) 3 1000 w)"

definition getDamageReports :: "'n transport \<Rightarrow> 'n world \<Rightarrow> (jsval, jsval) completion \<times> 'n world" where
  "getDamageReports send w = return_data_data (retryRequest (api_get send ''/damage-reports/my-reports'') 3 1000 w)"

definition createDamageReport :: "'n transport \<Rightarrow> jsval \<Rightarrow> 'n world \<Rightarrow> (jsval, jsval) completion \<times> 'n world" where
  "createDamageReport send reportData w = return_data_data (retryRequest (api_post send ''/damage-reports'' reportData) 3 1000 w)"

definition updateDamageReport :: "'n transport \<Rightarrow> int \<Rightarrow> jsval \<Rightarrow> 'n world \<Rightarrow> (jsval, jsval) completion \<times> 'n world" where
  "updateDamageReport send id' reportData w = return_data_data (retryRequest (api_put send (''/damage-reports/'' @ show_int id') reportData) 3 1000 w)"

definition deleteDamageReport :: "'n transport \<Rightarrow> int \<Rightarrow> 'n world \<Rightarrow> (jsval, jsval) completion \<times> 'n world" where
  "deleteDamageReport send id' w = return_data (retryRequest (api_delete send (''/damage-reports/'' @ show_int id')) 3 1000 w)"

definition updateDamageReportStatus :: "'n transport \<Rightarrow> int \<Rightarrow> jsval \<Rightarrow> 'n world \<Rightarrow> (jsval, jsval) completion \<times> 'n world" where
  "updateDamageReportStatus send id' status' w = return_data_data (retryRequest (api_put send (''/damage-reports/'' @ show_int id' @ ''/status'') (JObj [(''status'', status')])) 3 1000 w)"

definition getAirbnbGuests :: "'n transport \<Rightarrow> 'n world \<Rightarrow> (jsval, jsval) completion \<times> 'n world" where
  "getAirbnbGuests send w = return_data_data (retryRequest (api_get send ''/airbnb/guests'') 3 1000 w)"

definition getActiveAirbnbGuests :: "'n transport \<Rightarrow> 'n world \<Rightarrow> (jsval, jsval) completion \<times> 'n world" where
  "getActiveAirbnbGuests send w = return_data_data (retryRequest (api_get send ''/airbnb/guests/active'') 3 1000 w)"

definition createAirbnbGuest :: "'n transport \<Rightarrow> jsval \<Rightarrow> 'n world \<Rightarrow> (jsval, jsval) completion \<times> 'n world" where
  "createAirbnbGuest send guestData w = return_data_data (retryRequest (api_post send ''/airbnb/guests'' guestData) 3 1000 w)"

definition updateAirbnbGuest :: "'n transport \<Rightarrow> int \<Rightarrow> jsval \<Rightarrow> 'n world \<Rightarrow> (jsval, jsval) completion \<times> 'n world" where
  "updateAirbnbGuest send id' guestData w = return_data_data (retryRequest (api_put send (''/airbnb/guests/'' @ show_int id') guestData) 3 1000 w)"

definition checkinAirbnbGuest :: "'n transport \<Rightarrow> int \<Rightarrow> 'n world \<Rightarrow> (jsval, jsval) completion \<times> 'n world" where
  "checkinAirbnbGuest send id' w = return_data_data (retryRequest (api_put send (''/airbnb/guests/'' @ show_int id' @ ''/checkin'') JUndefined) 3 1000 w)"

definition checkoutAirbnbGuest :: "'n transport \<Rightarrow> int \<Rightarrow> 'n world \<Rightarrow> (jsval, jsval) completion \<times> 'n world" where
  "checkoutAirbnbGuest send id' w = return_data_data (retryRequest (api_put send (''/airbnb/guests/'' @ show_int id' @ ''/checkout'') JUndefined) 3 1000 w)"

definition deleteAirbnbGuest :: "'n transport \<Rightarrow> int \<Rightarrow> 'n world \<Rightarrow> (jsval, jsval) completion \<times> 'n world" where
  "deleteAirbnbGuest send id' w = return_data (retryRequest (api_delete send (''/airbnb/guests/'' @ show_int id')) 3 1000 w)"

subsection \<open>The operations as one family\<close>

text \<open>A call of an exported operation with its arguments, and its dispatch.\<close>

datatype call =
    Login jsval jsval
  | GetApartments
  | CreateApartment jsval
  | UpdateApartment int jsval
  | DeleteApartment int
  | CreatePayment jsval
  | GetPayments "string option"
  | RegisterPaymentAsPaid int
  | UpdatePayment int jsval
  | DeletePayment int
  | GetUsers
  | GetEvents
  | CreateEvent jsval
  | DeleteEvent int
  | UpdateEvent int jsval
  | UpdateMaintenanceStatus int jsval
  | CreateUser jsval
  | UpdateUser int jsval
  | DeleteUser int
  | GetNotifications
  | CreateNotification jsval
  | UpdateNotification int jsval
  | MarkNotificationAsRead int
  | DeleteNotification int
  | GetDamageReports
  | CreateDamageReport jsval
  | UpdateDamageReport int jsval
  | DeleteDamageReport int
  | UpdateDamageReportStatus int jsval
  | GetAirbnbGuests
  | GetActiveAirbnbGuests
  | CreateAirbnbGuest jsval
  | UpdateAirbnbGuest int jsval
  | CheckinAirbnbGuest int
  | CheckoutAirbnbGuest int
  | DeleteAirbnbGuest int

fun invoke :: "'n transport \<Rightarrow> call \<Rightarrow> 'n world \<Rightarrow> (jsval, jsval) completion \<times> 'n world" where
  "invoke send (Login email password) = login send email password"
| "invoke send GetApartments = getApartments send"
| "invoke send (CreateApartment apartmentData) = createApartment send apartmentData"
| "invoke send (UpdateApartment id' apartmentData) = updateApartment send id' apartmentData"
| "invoke send (DeleteApartment id') = deleteApartment send id'"
| "invoke send (CreatePayment paymentData) = createPayment send paymentData"
| "invoke send (GetPayments month) = getPayments send month"
| "invoke send (RegisterPaymentAsPaid paymentId) = registerPaymentAsPaid send paymentId"
| "invoke send (UpdatePayment id' paymentData) = updatePayment send id' paymentData"
| "invoke send (DeletePayment id') = deletePayment send id'"
| "invoke send GetUsers = getUsers send"
| "invoke send GetEvents = getEvents send"
| "invoke send (CreateEvent payload) = createEvent send payload"
| "invoke send (DeleteEvent id') = deleteEvent send id'"
| "invoke send (UpdateEvent id' payload) = updateEvent send id' payload"
| "invoke send (UpdateMaintenanceStatus id' status') = updateMaintenanceStatus send id' status'"
| "invoke send (CreateUser userData) = createUser send userData"
| "invoke send (UpdateUser id' userData) = updateUser send id' userData"
| "invoke send (DeleteUser id') = deleteUser send id'"
| "invoke send GetNotifications = getNotifications send"
| "invoke send (CreateNotification notificationData) = createNotification send notificationData"
| "invoke send (UpdateNotification id' notificationData) = updateNotification send id' notificationData"
| "invoke send (MarkNotificationAsRead id') = markNotificationAsRead send id'"
| "invoke send (DeleteNotification id') = deleteNotification send id'"
| "invoke send GetDamageReports = getDamageReports send"
| "invoke send (CreateDamageReport reportData) = createDamageReport send reportData"
| "invoke send (UpdateDamageReport id' reportData) = updateDamageReport send id' reportData"
| "invoke send (DeleteDamageReport id') = deleteDamageReport send id'"
| "invoke send (UpdateDamageReportStatus id' status') = updateDamageReportStatus send id' status'"
| "invoke send GetAirbnbGuests = getAirbnbGuests send"
| "invoke send GetActiveAirbnbGuests = getActiveAirbnbGuests send"
| "invoke send (CreateAirbnbGuest guestData) = createAirbnbGuest send guestData"
| "invoke send (UpdateAirbnbGuest id' guestData) = updateAirbnbGuest send id' guestData"
| "invoke send (CheckinAirbnbGuest id') = checkinAirbnbGuest send id'"
| "invoke send (CheckoutAirbnbGuest id') = checkoutAirbnbGuest send id'"
| "invoke send (DeleteAirbnbGuest id') = deleteAirbnbGuest send id'"

fun closure_of :: "'n transport \<Rightarrow> call \<Rightarrow> 'n world \<Rightarrow> (enhanced_error + response) \<times> 'n world" where
  "closure_of send (Login email password) = api_post send ''/auth/login'' (JObj [(''email'', email), (''password'', password)])"
| "closure_of send GetApartments = api_get send ''/apartments''"
| "closure_of send (CreateApartment apartmentData) = api_post send ''/apartments'' apartmentData"
| "closure_of send (UpdateApartment id' apartmentData) = api_put send (''/apartments/'' @ show_int id') apartmentData"
| "closure_of send (DeleteApartment id') = api_delete send (''/apartments/'' @ show_int id')"
| "closure_of send (CreatePayment paymentData) = api_post send ''/payments'' paymentData"
| "closure_of send (GetPayments month) = api_get send (''/payments'' @ month_query month)"
| "closure_of send (RegisterPaymentAsPaid paymentId) = api_put send (''/payments/'' @ show_int paymentId @ ''/pay'') (JObj [])"
| "closure_of send (UpdatePayment id' paymentData) = api_put send (''/payments/'' @ show_int id') paymentData"
| "closure_of send (DeletePayment id') = api_delete send (''/payments/'' @ show_int id')"
| "closure_of send GetUsers = api_get send ''/users''"
| "closure_of send GetEvents = api_get send ''/maintenance''"
| "closure_of send (CreateEvent payload) = api_post send ''/maintenance'' payload"
| "closure_of send (DeleteEvent id') = api_delete send (''/maintenance/'' @ show_int id')"
| "closure_of send (UpdateEvent id' payload) = api_put send (''/maintenance/'' @ show_int id') payload"
| "closure_of send (UpdateMaintenanceStatus id' status') = api_put send (''/maintenance/'' @ show_int id' @ ''/status'') (JObj [(''status'', status')])"
| "closure_of send (CreateUser userData) = api_post send ''/users'' userData"
| "closure_of send (UpdateUser id' userData) = api_put send (''/users/'' @ show_int id') userData"
| "closure_of send (DeleteUser id') = api_delete send (''/users/'' @ show_int id')"
| "closure_of send GetNotifications = api_get send ''/notifications''"
| "closure_of send (CreateNotification notificationData) = api_post send ''/notifications'' notificationData"
| "closure_of send (UpdateNotification id' notificationData) = api_put send (''/notifications/'' @ show_int id') notificationData"
| "closure_of send (MarkNotificationAsRead id') = api_put send (''/notifications/'' @ show_int id' @ ''/read'') JUndefined"
| "closure_of send (DeleteNotification id') = api_delete send (''/notifications/'' @ show_int id')"
| "closure_of send GetDamageReports = api_get send ''/damage-reports/my-reports''"
| "closure_of send (CreateDamageReport reportData) = api_post send ''/damage-reports'' reportData"
| "closure_of send (UpdateDamageReport id' reportData) = api_put send (''/damage-reports/'' @ show_int id') reportData"
| "closure_of send (DeleteDamageReport id') = api_delete send (''/damage-reports/'' @ show_int id')"
| "closure_of send (UpdateDamageReportStatus id' status') = api_put send (''/damage-reports/'' @ show_int id' @ ''/status'') (JObj [(''status'', status')])"
| "closure_of send GetAirbnbGuests = api_get send ''/airbnb/guests''"
| "closure_of send GetActiveAirbnbGuests = api_get send ''/airbnb/guests/active''"
| "closure_of send (CreateAirbnbGuest guestData) = api_post send ''/airbnb/guests'' guestData"
| "closure_of send (UpdateAirbnbGuest id' guestData) = api_put send (''/airbnb/guests/'' @ show_int id') guestData"
| "closure_of send (CheckinAirbnbGuest id') = api_put send (''/airbnb/guests/'' @ show_int id' @ ''/checkin'') JUndefined"
| "closure_of send (CheckoutAirbnbGuest id') = api_put send (''/airbnb/guests/'' @ show_int id' @ ''/checkout'') JUndefined"
| "closure_of send (DeleteAirbnbGuest id') = api_delete send (''/airbnb/guests/'' @ show_int id')"

fun is_delete :: "call \<Rightarrow> bool" where
  "is_delete (DeleteApartment id') = True"
| "is_delete (DeletePayment id') = True"
| "is_delete (DeleteEvent id') = True"
| "is_delete (DeleteUser id') = True"
| "is_delete (DeleteNotification id') = True"
| "is_delete (DeleteDamageReport id') = True"
| "is_delete (DeleteAirbnbGuest id') = True"
| "is_delete c = False"

definition is_login :: "call \<Rightarrow> bool" where
  "is_login c = (case c of Login email password \<Rightarrow> True | _ \<Rightarrow> False)"

text \<open>The part of an operation inside its \<open>try\<close>, before the result is unwrapped.\<close>

definition attempt ::
  "'n transport \<Rightarrow> call \<Rightarrow> 'n world \<Rightarrow> (enhanced_error, response option) completion \<times> 'n world" where
  "attempt send c w =
     (if is_login c then awaited (closure_of send c w)
      else retryRequest (closure_of send c) 3 1000 w)"

subsection \<open>Runs of the retry helper and of the interceptor\<close>

text \<open>
  The world in which attempt \<open>k\<close> (zero-based) of the retry helper starts when every
  earlier attempt was answered by a backoff: attempt \<open>k\<close> is followed by a wait of
  \<open>delay * 2 ^ k\<close>.
\<close>

fun world_before_attempt ::
  "('n world \<Rightarrow> (enhanced_error + response) \<times> 'n world) \<Rightarrow> int \<Rightarrow> nat \<Rightarrow> 'n world \<Rightarrow> 'n world" where
  "world_before_attempt fn delay 0 w = w"
| "world_before_attempt fn delay (Suc k) w =
     setTimeout (delay * 2 ^ k) (snd (fn (world_before_attempt fn delay k w)))"


subsection \<open>A scripted server\<close>

text \<open>
  A test double for the network: it takes its replies in turn from a list and is
  unreachable once the list is used up. As axios does by default, an answer with a status
  from 200 to 299 resolves and any other answer rejects with the response attached (its
  code, which the module reads only when there is no response, is left out); a request
  that runs into the timeout rejects with the code \<open>ECONNABORTED\<close>.
\<close>

datatype reply = Answer response | TimedOut | Unreachable

definition axios_settle :: "reply \<Rightarrow> axios_error + response" where
  "axios_settle x =
     (case x of
        Answer r \<Rightarrow>
          if 200 \<le> status r \<and> status r < 300 then Inr r
          else Inl \<lparr>response = Some r, request = True, code = None\<rparr>
      | TimedOut \<Rightarrow> Inl \<lparr>response = None, request = True, code = Some ''ECONNABORTED''\<rparr>
      | Unreachable \<Rightarrow> Inl \<lparr>response = None, request = True, code = Some ''ERR_NETWORK''\<rparr>)"

fun scripted :: "(reply list) transport" where
  "scripted config [] = (axios_settle Unreachable, [])"
| "scripted config (x # xs) = (axios_settle x, xs)"

definition browser :: "(string \<rightharpoonup> string) \<Rightarrow> string \<Rightarrow> 'n \<Rightarrow> 'n world" where
  "browser store path n =
     \<lparr>localStorage = store, pathname = path, navigations = [], timers = [], sent = [], net = n\<rparr>"

section \<open>Properties\<close>

subsection \<open>Unfolding the retry loop\<close>

lemma retry_loop_resolved:
  "int i < retries \<Longrightarrow> fn w = (Inr res, w1) \<Longrightarrow>
   retry_loop fn retries delay i w = (Returned (Some res), w1)"
  by (subst retry_loop.simps) simp

lemma retry_loop_backoff:
  "fn w = (Inl e, w1) \<Longrightarrow> status_of e = Some 429 \<Longrightarrow> int i < retries - 1 \<Longrightarrow>
   retry_loop fn retries delay i w =
     retry_loop fn retries delay (Suc i) (setTimeout (delay * 2 ^ i) w1)"
  by (subst retry_loop.simps) simp

lemma retry_loop_rethrow:
  "int i < retries \<Longrightarrow> fn w = (Inl e, w1) \<Longrightarrow>
   \<not> (status_of e = Some 429 \<and> int i < retries - 1) \<Longrightarrow>
   retry_loop fn retries delay i w = (Threw e, w1)"
  by (subst retry_loop.simps) auto

lemma retry_loop_exhausted:
  "\<not> int i < retries \<Longrightarrow> retry_loop fn retries delay i w = (Returned None, w)"
  by (subst retry_loop.simps) simp

text \<open>The definitions of the pipeline, for evaluating a run.\<close>

lemmas pipeline_defs =
  api_get_def api_post_def api_put_def api_delete_def api_request_def api_config_def
  response_rejected_def errorMessage_of_def session_teardown_def removeItem_def
  assign_href_def setTimeout_def status_of_def axios_settle_def browser_def
  return_data_data_def return_data_def rethrown_def js_or_def connection_fallback_def
  awaited_def retryRequest_def

subsection \<open>The retry helper\<close>

lemma retry_loop_all_429:
  assumes "i < n"
    and "\<forall>k. i \<le> k \<and> k < n \<longrightarrow>
           (\<exists>e. fst (fn (world_before_attempt fn delay k w)) = Inl e \<and> status_of e = Some 429)"
  shows "\<exists>e. retry_loop fn (int n) delay i (world_before_attempt fn delay i w)
                = (Threw e, snd (fn (world_before_attempt fn delay (n - 1) w)))
            \<and> fst (fn (world_before_attempt fn delay (n - 1) w)) = Inl e
            \<and> status_of e = Some 429"
  using assms
proof (induction "n - i" arbitrary: i)
  case 0
  then show ?case by simp
next
  case (Suc d)
  let ?w = "world_before_attempt fn delay i w"
  from Suc.prems obtain e where e: "fst (fn ?w) = Inl e" "status_of e = Some 429"
    by (metis order_refl)
  then have run: "fn ?w = (Inl e, snd (fn ?w))"
    by (metis prod.collapse)
  show ?case
  proof (cases "Suc i < n")
    case True
    then have more: "int i < int n - 1" by simp
    have d: "d = n - Suc i" using Suc.hyps(2) by simp
    have later: "\<forall>k. Suc i \<le> k \<and> k < n \<longrightarrow>
           (\<exists>e. fst (fn (world_before_attempt fn delay k w)) = Inl e \<and> status_of e = Some 429)"
      using Suc.prems(2) by simp
    have "retry_loop fn (int n) delay i ?w
            = retry_loop fn (int n) delay (Suc i) (world_before_attempt fn delay (Suc i) w)"
      using retry_loop_backoff [where fn = fn and w = ?w, OF run e(2) more] by simp
    with Suc.hyps(1) [OF d True later] show ?thesis by simp
  next
    case False
    with Suc.prems(1) have last: "n - 1 = i" by simp
    have "retry_loop fn (int n) delay i ?w = (Threw e, snd (fn ?w))"
      by (rule retry_loop_rethrow [where fn = fn and w = ?w, OF _ run]) (use Suc.prems(1) False in auto)
    with e last show ?thesis by simp
  qed
qed

text \<open>
  C6. When every attempt of an operation fails with status 429, \<open>retryRequest\<close> with
  \<open>retries = n > 0\<close> makes exactly \<open>n\<close> attempts, attempt \<open>k\<close> being followed by a wait of
  \<open>delay * 2 ^ k\<close> for \<open>k < n - 1\<close>, and then throws the failure of the last attempt as it
  is, in the world that attempt left, without a further wait: it does not return
  \<open>undefined\<close>. Every caller leaves the default \<open>n = 3\<close>.
\<close>

theorem retry_exhaustion:
  assumes "0 < n"
    and "\<forall>k<n. \<exists>e. fst (fn (world_before_attempt fn delay k w)) = Inl e \<and> status_of e = Some 429"
  shows "\<exists>e. retryRequest fn (int n) delay w
                = (Threw e, snd (fn (world_before_attempt fn delay (n - 1) w)))
            \<and> fst (fn (world_before_attempt fn delay (n - 1) w)) = Inl e
            \<and> status_of e = Some 429"
  using retry_loop_all_429 [of 0 n fn delay w] assms
  by (simp add: retryRequest_def)

lemma retry_loop_429s_then_other:
  assumes "i \<le> k" and "k < n"
    and "\<forall>j. i \<le> j \<and> j < k \<longrightarrow>
           (\<exists>e'. fst (fn (world_before_attempt fn delay j w)) = Inl e' \<and> status_of e' = Some 429)"
    and "fn (world_before_attempt fn delay k w) = (Inl e, w1)"
    and "status_of e \<noteq> Some 429"
  shows "retry_loop fn (int n) delay i (world_before_attempt fn delay i w) = (Threw e, w1)"
  using assms(1,3)
proof (induction "k - i" arbitrary: i)
  case 0
  then have "i = k" by simp
  moreover have "retry_loop fn (int n) delay k (world_before_attempt fn delay k w) = (Threw e, w1)"
    by (rule retry_loop_rethrow [where fn = fn, OF _ assms(4)]) (use assms(2,5) in auto)
  ultimately show ?case by simp
next
  case (Suc d)
  let ?w = "world_before_attempt fn delay i w"
  from Suc.hyps(2) have less: "i < k" by simp
  with Suc.prems(2) obtain e' where e': "fst (fn ?w) = Inl e'" "status_of e' = Some 429"
    by (metis order_refl)
  then have run: "fn ?w = (Inl e', snd (fn ?w))"
    by (metis prod.collapse)
  from less assms(2) have more: "int i < int n - 1" by simp
  have d: "d = k - Suc i" using Suc.hyps(2) by simp
  have next_le: "Suc i \<le> k" using less by simp
  have later: "\<forall>j. Suc i \<le> j \<and> j < k \<longrightarrow>
           (\<exists>e'. fst (fn (world_before_attempt fn delay j w)) = Inl e' \<and> status_of e' = Some 429)"
    using Suc.prems(2) by simp
  have "retry_loop fn (int n) delay i ?w
          = retry_loop fn (int n) delay (Suc i) (world_before_attempt fn delay (Suc i) w)"
    using retry_loop_backoff [where fn = fn and w = ?w, OF run e'(2) more] by simp
  with Suc.hyps(1) [OF d next_le later] show ?case by simp
qed

text \<open>
  C5. A failure whose status is not 429, which includes a failure without a response such
  as a timeout or an unreachable network, is thrown by the loop at whatever index \<open>i\<close> it
  occurs: the result is that failure, in the world the failing attempt left, so it was
  not retried and nothing was waited for after it. For \<open>retryRequest\<close> this means: a
  failure of the first attempt is thrown after that single attempt, and a failure of
  attempt \<open>k\<close> that follows \<open>k\<close> answers 429 is thrown right after attempt \<open>k\<close>.
\<close>

theorem non_429_single_attempt:
  "(int i < retries \<and> fn w = (Inl e, w1) \<and> status_of e \<noteq> Some 429
      \<longrightarrow> retry_loop fn retries delay i w = (Threw e, w1))
   \<and> (0 < retries \<and> fn w = (Inl e, w1) \<and> status_of e \<noteq> Some 429
      \<longrightarrow> retryRequest fn retries delay w = (Threw e, w1))
   \<and> (k < n
       \<and> (\<forall>j<k. \<exists>e'. fst (fn (world_before_attempt fn delay j w)) = Inl e'
                      \<and> status_of e' = Some 429)
       \<and> fn (world_before_attempt fn delay k w) = (Inl e, w1) \<and> status_of e \<noteq> Some 429
      \<longrightarrow> retryRequest fn (int n) delay w = (Threw e, w1))"
proof (intro conjI impI)
  assume "int i < retries \<and> fn w = (Inl e, w1) \<and> status_of e \<noteq> Some 429"
  then show "retry_loop fn retries delay i w = (Threw e, w1)"
    by (simp add: retry_loop_rethrow)
next
  assume "0 < retries \<and> fn w = (Inl e, w1) \<and> status_of e \<noteq> Some 429"
  then show "retryRequest fn retries delay w = (Threw e, w1)"
    by (simp add: retryRequest_def retry_loop_rethrow)
next
  assume run: "k < n
       \<and> (\<forall>j<k. \<exists>e'. fst (fn (world_before_attempt fn delay j w)) = Inl e'
                      \<and> status_of e' = Some 429)
       \<and> fn (world_before_attempt fn delay k w) = (Inl e, w1) \<and> status_of e \<noteq> Some 429"
  then have "retry_loop fn (int n) delay 0 (world_before_attempt fn delay 0 w) = (Threw e, w1)"
    by (intro retry_loop_429s_then_other [where k = k]) auto
  then show "retryRequest fn (int n) delay w = (Threw e, w1)"
    by (simp add: retryRequest_def)
qed

text \<open>
  C2. At the zero-based attempt index \<open>i\<close>, a failure with status 429 while
  \<open>i < retries - 1\<close> makes the loop wait \<open>delay * 2 ^ i\<close> and go on with attempt \<open>i + 1\<close>.
  And \<open>getApartments\<close> against a server that answers 429, 429 and then 200 with the body
  \<open>{data: [{id: 1}]}\<close> returns \<open>[{id: 1}]\<close> after three requests and the waits 1000 and 2000.
\<close>

theorem backoff_and_scenario:
  fixes fn :: "'n world \<Rightarrow> (enhanced_error + response) \<times> 'n world"
  shows
  "(fn w = (Inl e, w1) \<and> status_of e = Some 429 \<and> int i < retries - 1 \<longrightarrow>
      retry_loop fn retries delay i w
        = retry_loop fn retries delay (Suc i) (setTimeout (delay * 2 ^ i) w1))
   \<and> getApartments scripted
          (browser store path
             [Answer \<lparr>status = 429, data = b1\<rparr>, Answer \<lparr>status = 429, data = b2\<rparr>,
              Answer \<lparr>status = 200, data = JObj [(''data'', JArr [JObj [(''id'', JNum 1)]])]\<rparr>])
        = (Returned (JArr [JObj [(''id'', JNum 1)]]),
           \<lparr>localStorage = store, pathname = path, navigations = [], timers = [1000, 2000],
            sent = replicate 3 (request_interceptor (browser store path [])
                                  (api_config GET ''/apartments'' JUndefined)),
            net = []\<rparr>)"
proof (intro conjI impI)
  assume "fn w = (Inl e, w1) \<and> status_of e = Some 429 \<and> int i < retries - 1"
  then show "retry_loop fn retries delay i w
        = retry_loop fn retries delay (Suc i) (setTimeout (delay * 2 ^ i) w1)"
    by (simp add: retry_loop_backoff)
next
  show "getApartments scripted
          (browser store path
             [Answer \<lparr>status = 429, data = b1\<rparr>, Answer \<lparr>status = 429, data = b2\<rparr>,
              Answer \<lparr>status = 200, data = JObj [(''data'', JArr [JObj [(''id'', JNum 1)]])]\<rparr>])
        = (Returned (JArr [JObj [(''id'', JNum 1)]]),
           \<lparr>localStorage = store, pathname = path, navigations = [], timers = [1000, 2000],
            sent = replicate 3 (request_interceptor (browser store path [])
                                  (api_config GET ''/apartments'' JUndefined)),
            net = []\<rparr>)"
    by (simp add: getApartments_def pipeline_defs retry_loop.simps request_interceptor_def
          numeral_3_eq_3)
qed

theorem backoff_and_scenario_witness:
  "api_get scripted ''/apartments''
       (browser Map.empty ''/home'' [Answer \<lparr>status = 429, data = JNull\<rparr>, Answer \<lparr>status = 200, data = JObj []\<rparr>])
     = (Inl \<lparr>response = Some \<lparr>status = 429, data = JNull\<rparr>, request = True, code = None,
             userMessage = JStr (''Demasiadas solicitudes. Reintentando autom'' @ [CHR 0xE1]
                                 @ ''ticamente...''),
             originalError = \<lparr>response = Some \<lparr>status = 429, data = JNull\<rparr>, request = True,
                              code = None\<rparr>\<rparr>,
        \<lparr>localStorage = Map.empty, pathname = ''/home'', navigations = [], timers = [],
         sent = [api_config GET ''/apartments'' JUndefined],
         net = [Answer \<lparr>status = 200, data = JObj []\<rparr>]\<rparr>)
   \<and> retry_loop (api_get scripted ''/apartments'') 3 1000 0
       (browser Map.empty ''/home'' [Answer \<lparr>status = 429, data = JNull\<rparr>, Answer \<lparr>status = 200, data = JObj []\<rparr>])
     = retry_loop (api_get scripted ''/apartments'') 3 1000 (Suc 0)
         \<lparr>localStorage = Map.empty, pathname = ''/home'', navigations = [], timers = [1000],
          sent = [api_config GET ''/apartments'' JUndefined],
          net = [Answer \<lparr>status = 200, data = JObj []\<rparr>]\<rparr>"
proof -
  let ?fn = "api_get scripted ''/apartments'' :: reply list world \<Rightarrow> _"
  let ?w = "browser Map.empty ''/home'' [Answer \<lparr>status = 429, data = JNull\<rparr>, Answer \<lparr>status = 200, data = JObj []\<rparr>]"
  let ?e = "\<lparr>response = Some \<lparr>status = 429, data = JNull\<rparr>, request = True, code = None,
             userMessage = JStr (''Demasiadas solicitudes. Reintentando autom'' @ [CHR 0xE1]
                                 @ ''ticamente...''),
             originalError = \<lparr>response = Some \<lparr>status = 429, data = JNull\<rparr>, request = True,
                              code = None\<rparr>\<rparr>"
  let ?w1 = "\<lparr>localStorage = Map.empty, pathname = ''/home'', navigations = [], timers = [],
         sent = [api_config GET ''/apartments'' JUndefined],
         net = [Answer \<lparr>status = 200, data = JObj []\<rparr>]\<rparr>"
  have h1: "?fn ?w = (Inl ?e, ?w1)"
    by (simp add: pipeline_defs request_interceptor_def)
  have h2: "status_of ?e = Some 429"
    by (simp add: status_of_def)
  have h3: "int 0 < 3 - 1" by simp
  have w2: "setTimeout (1000 * 2 ^ 0) ?w1 =
        \<lparr>localStorage = Map.empty, pathname = ''/home'', navigations = [], timers = [1000],
          sent = [api_config GET ''/apartments'' JUndefined],
          net = [Answer \<lparr>status = 200, data = JObj []\<rparr>]\<rparr>"
    by (simp add: setTimeout_def)
  from backoff_and_scenario [where fn = ?fn and w = ?w and e = ?e and ?w1.0 = ?w1
      and i = 0 and retries = 3 and delay = 1000, THEN conjunct1] h1 h2 h3
  have "retry_loop ?fn 3 1000 0 ?w = retry_loop ?fn 3 1000 (Suc 0) (setTimeout (1000 * 2 ^ 0) ?w1)"
    by blast
  with w2 h1 show ?thesis by simp
qed

theorem non_429_single_attempt_witness:
  "retryRequest (api_get scripted ''/apartments'') 3 1000
       (browser Map.empty ''/home'' [TimedOut, Answer \<lparr>status = 200, data = JObj []\<rparr>])
     = (Threw \<lparr>response = None, request = True, code = Some ''ECONNABORTED'',
               userMessage = JStr (''La solicitud ha tardado demasiado. Verifica tu conexi''
                                   @ [CHR 0xF3] @ ''n''),
               originalError = \<lparr>response = None, request = True, code = Some ''ECONNABORTED''\<rparr>\<rparr>,
        \<lparr>localStorage = Map.empty, pathname = ''/home'', navigations = [], timers = [],
         sent = [api_config GET ''/apartments'' JUndefined],
         net = [Answer \<lparr>status = 200, data = JObj []\<rparr>]\<rparr>)
   \<and> retryRequest (api_get scripted ''/apartments'') (int 3) 1000
       (browser Map.empty ''/home''
          [Answer \<lparr>status = 429, data = JNull\<rparr>, Answer \<lparr>status = 500, data = JNull\<rparr>,
           Answer \<lparr>status = 200, data = JObj []\<rparr>])
     = (Threw \<lparr>response = Some \<lparr>status = 500, data = JNull\<rparr>, request = True, code = None,
               userMessage = JStr (''Error interno del servidor. Int'' @ [CHR 0xE9]
                                   @ ''ntalo m'' @ [CHR 0xE1] @ ''s tarde''),
               originalError = \<lparr>response = Some \<lparr>status = 500, data = JNull\<rparr>,
                                request = True, code = None\<rparr>\<rparr>,
        \<lparr>localStorage = Map.empty, pathname = ''/home'', navigations = [], timers = [1000],
         sent = [api_config GET ''/apartments'' JUndefined,
                 api_config GET ''/apartments'' JUndefined],
         net = [Answer \<lparr>status = 200, data = JObj []\<rparr>]\<rparr>)"
proof -
  let ?fn = "api_get scripted ''/apartments'' :: reply list world \<Rightarrow> _"
  let ?w = "browser Map.empty ''/home'' [TimedOut, Answer \<lparr>status = 200, data = JObj []\<rparr>]"
  let ?e = "\<lparr>response = None, request = True, code = Some ''ECONNABORTED'',
               userMessage = JStr (''La solicitud ha tardado demasiado. Verifica tu conexi''
                                   @ [CHR 0xF3] @ ''n''),
               originalError = \<lparr>response = None, request = True, code = Some ''ECONNABORTED''\<rparr>\<rparr>"
  let ?w1 = "\<lparr>localStorage = Map.empty, pathname = ''/home'', navigations = [], timers = [],
           sent = [api_config GET ''/apartments'' JUndefined],
           net = [Answer \<lparr>status = 200, data = JObj []\<rparr>]\<rparr> :: reply list world"
  have h1: "(0::int) < 3" by simp
  have h2: "?fn ?w = (Inl ?e, ?w1)"
    by (simp add: pipeline_defs request_interceptor_def)
  have h3: "status_of ?e \<noteq> Some 429"
    by (simp add: status_of_def)
  from non_429_single_attempt [where fn = ?fn and w = ?w and e = ?e and ?w1.0 = ?w1
      and retries = 3 and delay = 1000, THEN conjunct2, THEN conjunct1] h1 h2 h3
  have first: "retryRequest ?fn 3 1000 ?w = (Threw ?e, ?w1)"
    by blast
  let ?v = "browser Map.empty ''/home''
          [Answer \<lparr>status = 429, data = JNull\<rparr>, Answer \<lparr>status = 500, data = JNull\<rparr>,
           Answer \<lparr>status = 200, data = JObj []\<rparr>]"
  let ?e5 = "\<lparr>response = Some \<lparr>status = 500, data = JNull\<rparr>, request = True, code = None,
               userMessage = JStr (''Error interno del servidor. Int'' @ [CHR 0xE9]
                                   @ ''ntalo m'' @ [CHR 0xE1] @ ''s tarde''),
               originalError = \<lparr>response = Some \<lparr>status = 500, data = JNull\<rparr>,
                                request = True, code = None\<rparr>\<rparr>"
  let ?v2 = "\<lparr>localStorage = Map.empty, pathname = ''/home'', navigations = [], timers = [1000],
         sent = [api_config GET ''/apartments'' JUndefined,
                 api_config GET ''/apartments'' JUndefined],
         net = [Answer \<lparr>status = 200, data = JObj []\<rparr>]\<rparr> :: reply list world"
  have k1: "Suc 0 < 3" by simp
  have k2: "\<exists>e'. fst (?fn (world_before_attempt ?fn 1000 0 ?v)) = Inl e' \<and> status_of e' = Some 429"
    by (simp add: pipeline_defs request_interceptor_def)
  then have k2': "\<forall>j<Suc 0. \<exists>e'. fst (?fn (world_before_attempt ?fn 1000 j ?v)) = Inl e'
                      \<and> status_of e' = Some 429"
    by simp
  have k3: "?fn (world_before_attempt ?fn 1000 (Suc 0) ?v) = (Inl ?e5, ?v2)"
    by (simp add: pipeline_defs request_interceptor_def)
  have k4: "status_of ?e5 \<noteq> Some 429"
    by (simp add: status_of_def)
  from non_429_single_attempt [where fn = ?fn and w = ?v and e = ?e5 and ?w1.0 = ?v2
      and k = "Suc 0" and n = 3 and delay = 1000, THEN conjunct2, THEN conjunct2] k1 k2' k3 k4
  have second: "retryRequest ?fn (int 3) 1000 ?v = (Threw ?e5, ?v2)"
    by blast
  from first second show ?thesis by blast
qed

theorem retry_exhaustion_witness:
  "(0::nat) < 3
   \<and> (\<exists>e. fst (api_get scripted ''/users''
                  (world_before_attempt (api_get scripted ''/users'') 1000 0
                     (browser Map.empty ''/home''
                        (replicate 4 (Answer \<lparr>status = 429, data = JNull\<rparr>))))) = Inl e
           \<and> status_of e = Some 429)
   \<and> (\<exists>e. fst (api_get scripted ''/users''
                  (world_before_attempt (api_get scripted ''/users'') 1000 (Suc 0)
                     (browser Map.empty ''/home''
                        (replicate 4 (Answer \<lparr>status = 429, data = JNull\<rparr>))))) = Inl e
           \<and> status_of e = Some 429)
   \<and> (\<exists>e. fst (api_get scripted ''/users''
                  (world_before_attempt (api_get scripted ''/users'') 1000 (Suc (Suc 0))
                     (browser Map.empty ''/home''
                        (replicate 4 (Answer \<lparr>status = 429, data = JNull\<rparr>))))) = Inl e
           \<and> status_of e = Some 429)
   \<and> (\<exists>e. retryRequest (api_get scripted ''/users'') (int 3) 1000
              (browser Map.empty ''/home'' (replicate 4 (Answer \<lparr>status = 429, data = JNull\<rparr>)))
            = (Threw e,
               \<lparr>localStorage = Map.empty, pathname = ''/home'', navigations = [],
                timers = [1000, 2000],
                sent = replicate 3 (api_config GET ''/users'' JUndefined),
                net = [Answer \<lparr>status = 429, data = JNull\<rparr>]\<rparr>)
          \<and> status_of e = Some 429)"
proof -
  let ?fn = "api_get scripted ''/users'' :: reply list world \<Rightarrow> _"
  let ?w = "browser Map.empty ''/home'' (replicate 4 (Answer \<lparr>status = 429, data = JNull\<rparr>))"
  define P where "P k \<longleftrightarrow> (\<exists>e. fst (?fn (world_before_attempt ?fn 1000 k ?w)) = Inl e
                 \<and> status_of e = Some 429)" for k
  have four: "replicate 4 x = [x, x, x, x]" for x :: reply
    by (simp add: numeral_eq_Suc)
  have p0: "P 0"
    unfolding P_def by (simp add: pipeline_defs request_interceptor_def four)
  have p1: "P (Suc 0)"
    unfolding P_def by (simp add: pipeline_defs request_interceptor_def four)
  have p2: "P (Suc (Suc 0))"
    unfolding P_def by (simp add: pipeline_defs request_interceptor_def four)
  have h1: "(0::nat) < 3" by simp
  have "\<forall>k<3. P k"
    using p0 p1 p2 by (simp add: numeral_3_eq_3 less_Suc_eq)
  then have h2: "\<forall>k<3. \<exists>e. fst (?fn (world_before_attempt ?fn 1000 k ?w)) = Inl e
                 \<and> status_of e = Some 429"
    unfolding P_def .
  have "snd (?fn (world_before_attempt ?fn 1000 (Suc (Suc 0)) ?w))
            = \<lparr>localStorage = Map.empty, pathname = ''/home'', navigations = [],
                timers = [1000, 2000],
                sent = replicate 3 (api_config GET ''/users'' JUndefined),
                net = [Answer \<lparr>status = 429, data = JNull\<rparr>]\<rparr>"
    by (simp add: pipeline_defs request_interceptor_def four numeral_3_eq_3)
  then have w2: "snd (?fn (world_before_attempt ?fn 1000 (3 - 1) ?w))
            = \<lparr>localStorage = Map.empty, pathname = ''/home'', navigations = [],
                timers = [1000, 2000],
                sent = replicate 3 (api_config GET ''/users'' JUndefined),
                net = [Answer \<lparr>status = 429, data = JNull\<rparr>]\<rparr>"
    by (simp add: numeral_3_eq_3)
  from retry_exhaustion [where fn = ?fn and w = ?w, OF h1 h2] obtain e where
    "retryRequest ?fn (int 3) 1000 ?w = (Threw e, snd (?fn (world_before_attempt ?fn 1000 (3 - 1) ?w)))"
    "status_of e = Some 429"
    by blast
  with w2 have "\<exists>e. retryRequest ?fn (int 3) 1000 ?w
            = (Threw e,
               \<lparr>localStorage = Map.empty, pathname = ''/home'', navigations = [],
                timers = [1000, 2000],
                sent = replicate 3 (api_config GET ''/users'' JUndefined),
                net = [Answer \<lparr>status = 429, data = JNull\<rparr>]\<rparr>)
          \<and> status_of e = Some 429"
    by auto
  with h1 p0 p1 p2 show ?thesis unfolding P_def by blast
qed

subsection \<open>The response interceptor\<close>

lemma truthy_js_or: "truthy b \<Longrightarrow> truthy (js_or a b)"
  by (simp add: js_or_def)

lemma userMessage_response_rejected:
  "userMessage (fst (response_rejected error w)) = errorMessage_of error"
  by (simp add: response_rejected_def Let_def)

lemma truthy_errorMessage_of: "truthy (errorMessage_of error)"
  by (simp add: errorMessage_of_def truthy_js_or split: option.split)

text \<open>
  C3. The message the response interceptor attaches follows the table: for 400 and 422
  the \<open>error\<close> field of the body when it is truthy, else a fixed message of its own; fixed
  messages for 401, 403, 404, 429 and 500; for any other status the \<open>error\<close> field when
  truthy, else \<open>Error\<close> and the status; without a response, the timeout message for the
  code \<open>ECONNABORTED\<close> and the connection message otherwise when a request was made; the
  generic message when there is neither response nor request. The handler is total: for
  every error it yields a descriptor, whose message is truthy and which keeps the original
  error and its response.
\<close>

theorem normalizer_message_table:
  "(let m = userMessage (fst (response_rejected error w));
        server = (\<lambda>r. opt_member (data r) ''error'')
    in (\<forall>r. response error = Some r \<longrightarrow>
          (status r = 400 \<longrightarrow>
             m = (if truthy (server r) then server r
                  else JStr (''Datos inv'' @ [CHR 0xE1] @ ''lidos'')))
        \<and> (status r = 401 \<longrightarrow>
             m = JStr (''Sesi'' @ [CHR 0xF3] @ ''n expirada. Por favor, inicia sesi''
                       @ [CHR 0xF3] @ ''n nuevamente''))
        \<and> (status r = 403 \<longrightarrow>
             m = JStr (''No tienes permisos para realizar esta acci'' @ [CHR 0xF3] @ ''n''))
        \<and> (status r = 404 \<longrightarrow> m = JStr ''Recurso no encontrado'')
        \<and> (status r = 422 \<longrightarrow>
             m = (if truthy (server r) then server r
                  else JStr (''Datos de entrada inv'' @ [CHR 0xE1] @ ''lidos'')))
        \<and> (status r = 429 \<longrightarrow>
             m = JStr (''Demasiadas solicitudes. Reintentando autom'' @ [CHR 0xE1]
                       @ ''ticamente...''))
        \<and> (status r = 500 \<longrightarrow>
             m = JStr (''Error interno del servidor. Int'' @ [CHR 0xE9] @ ''ntalo m''
                       @ [CHR 0xE1] @ ''s tarde''))
        \<and> (status r \<notin> {400, 401, 403, 404, 422, 429, 500} \<longrightarrow>
             m = (if truthy (server r) then server r
                  else JStr (''Error '' @ show_int (status r)))))
     \<and> (response error = None \<and> request error \<and> code error = Some ''ECONNABORTED'' \<longrightarrow>
          m = JStr (''La solicitud ha tardado demasiado. Verifica tu conexi''
                    @ [CHR 0xF3] @ ''n''))
     \<and> (response error = None \<and> request error \<and> code error \<noteq> Some ''ECONNABORTED'' \<longrightarrow>
          m = JStr (''Error de conexi'' @ [CHR 0xF3] @ ''n. Verifica tu conexi''
                    @ [CHR 0xF3] @ ''n a internet''))
     \<and> (response error = None \<and> \<not> request error \<longrightarrow>
          m = JStr ''Ha ocurrido un error inesperado'')
     \<and> truthy m)
   \<and> originalError (fst (response_rejected error w)) = error
   \<and> response (fst (response_rejected error w)) = response error"
proof -
  have table: ?thesis if "userMessage (fst (response_rejected error w)) = errorMessage_of error"
      and "truthy (errorMessage_of error)"
    using that
    by (simp add: Let_def response_rejected_def errorMessage_of_def js_or_def)
  show ?thesis
    by (rule table) (rule userMessage_response_rejected, rule truthy_errorMessage_of)
qed

theorem normalizer_message_table_witness:
  "userMessage (fst (response_rejected
       \<lparr>response = Some \<lparr>status = 422, data = JObj [(''error'', JStr ''email taken'')]\<rparr>,
        request = True, code = None\<rparr> (browser Map.empty ''/users'' ()))) = JStr ''email taken''
   \<and> userMessage (fst (response_rejected
       \<lparr>response = Some \<lparr>status = 503, data = JStr ''<html>''\<rparr>,
        request = True, code = None\<rparr> (browser Map.empty ''/users'' ()))) = JStr ''Error 503''
   \<and> userMessage (fst (response_rejected
       \<lparr>response = None, request = False, code = None\<rparr> (browser Map.empty ''/users'' ())))
       = JStr ''Ha ocurrido un error inesperado''"
proof -
  let ?w = "browser Map.empty ''/users'' ()"
  let ?e1 = "\<lparr>response = Some \<lparr>status = 422, data = JObj [(''error'', JStr ''email taken'')]\<rparr>,
        request = True, code = None\<rparr>"
  let ?e2 = "\<lparr>response = Some \<lparr>status = 503, data = JStr ''<html>''\<rparr>,
        request = True, code = None\<rparr>"
  let ?e3 = "\<lparr>response = None, request = False, code = None\<rparr>"
  have s: "show_int 503 = ''503''"
    by code_simp
  have a: "userMessage (fst (response_rejected ?e1 ?w)) = JStr ''email taken''"
    using normalizer_message_table [of ?e1 ?w] by (simp add: Let_def)
  have b: "userMessage (fst (response_rejected ?e2 ?w)) = JStr ''Error 503''"
    using normalizer_message_table [of ?e2 ?w] s by (simp add: Let_def)
  have c: "userMessage (fst (response_rejected ?e3 ?w)) = JStr ''Ha ocurrido un error inesperado''"
    using normalizer_message_table [of ?e3 ?w] by (simp add: Let_def)
  from a b c show ?thesis by blast
qed

subsection \<open>Session teardown on 401\<close>











subsection \<open>The request interceptor\<close>

text \<open>
  C9, as amended. The interceptor sets \<open>Authorization: Bearer <token>\<close> when
  \<open>localStorage\<close> holds a non-empty token, and returns the configuration unchanged when
  there is no token or the stored token is the empty string.
\<close>

theorem bearer_token_attached:
  "(\<forall>t. localStorage w ''token'' = Some t \<and> t \<noteq> [] \<longrightarrow>
        request_interceptor w config
          = config\<lparr>headers := (headers config)(''Authorization'' \<mapsto> ''Bearer '' @ t)\<rparr>)
   \<and> (localStorage w ''token'' = None \<or> localStorage w ''token'' = Some [] \<longrightarrow>
        request_interceptor w config = config)"
  by (auto simp: request_interceptor_def)

theorem bearer_token_attached_witness:
  "headers (request_interceptor (browser [''token'' \<mapsto> ''abc''] ''/home'' ())
              (api_config GET ''/users'' JUndefined)) ''Authorization'' = Some ''Bearer abc''
   \<and> headers (request_interceptor (browser [''token'' \<mapsto> ''abc''] ''/home'' ())
              (api_config GET ''/users'' JUndefined)) ''Content-Type'' = Some ''application/json''
   \<and> request_interceptor (browser Map.empty ''/home'' ()) (api_config GET ''/users'' JUndefined)
       = api_config GET ''/users'' JUndefined"
proof -
  let ?c = "api_config GET ''/users'' JUndefined"
  have a: "request_interceptor (browser [''token'' \<mapsto> ''abc''] ''/home'' ()) ?c
           = ?c\<lparr>headers := (headers ?c)(''Authorization'' \<mapsto> ''Bearer '' @ ''abc'')\<rparr>"
    using bearer_token_attached [of "browser [''token'' \<mapsto> ''abc''] ''/home'' ()" ?c]
    by (simp add: browser_def)
  have b: "request_interceptor (browser Map.empty ''/home'' ()) ?c = ?c"
    using bearer_token_attached [of "browser Map.empty ''/home'' ()" ?c]
    by (simp add: browser_def)
  from a b show ?thesis by (simp add: api_config_def)
qed

text \<open>
  C9 as stated fails for a stored token that is the empty string: the key is present in
  the store, \<open>if (token)\<close> is false, and no header is added.
\<close>

theorem empty_token_not_attached:
  "localStorage (browser [''token'' \<mapsto> []] ''/home'' ()) ''token'' = Some []
   \<and> headers (request_interceptor (browser [''token'' \<mapsto> []] ''/home'' ())
                (api_config GET ''/users'' JUndefined)) ''Authorization'' = None"
  by (simp add: browser_def request_interceptor_def api_config_def)

subsection \<open>Outcomes of the exported operations\<close>

lemmas operation_defs =
  login_def getApartments_def createApartment_def updateApartment_def deleteApartment_def createPayment_def getPayments_def registerPaymentAsPaid_def updatePayment_def deletePayment_def getUsers_def getEvents_def createEvent_def deleteEvent_def updateEvent_def updateMaintenanceStatus_def createUser_def updateUser_def deleteUser_def getNotifications_def createNotification_def updateNotification_def markNotificationAsRead_def deleteNotification_def getDamageReports_def createDamageReport_def updateDamageReport_def deleteDamageReport_def updateDamageReportStatus_def getAirbnbGuests_def getActiveAirbnbGuests_def createAirbnbGuest_def updateAirbnbGuest_def checkinAirbnbGuest_def checkoutAirbnbGuest_def deleteAirbnbGuest_def

lemma invoke_shape:
  "invoke send c w = (if is_delete c then return_data else return_data_data) (attempt send c w)"
  by (cases c) (simp_all add: operation_defs attempt_def is_login_def)

lemma closure_of_api: "\<exists>v u b. closure_of send c = api_request send v u b"
  by (cases c) (auto simp: api_get_def api_post_def api_put_def api_delete_def)


lemma api_request_effects:
  "sent (snd (api_request send v u b w)) = sent w @ [request_interceptor w (api_config v u b)]"
  "timers (snd (api_request send v u b w)) = timers w"
  by (simp_all add: api_request_def response_rejected_def session_teardown_def removeItem_def
      assign_href_def Let_def split: prod.split sum.split option.split)

lemma api_request_rejects_normalized:
  "api_request send v u b w = (Inl e, w1) \<Longrightarrow> truthy (userMessage e)"
  by (auto simp: api_request_def response_rejected_def Let_def truthy_errorMessage_of
      split: prod.splits sum.splits)

lemma retry_loop_thrown_by_fn:
  "retry_loop fn r d i w = (Threw e, w') \<Longrightarrow> \<exists>w0. fn w0 = (Inl e, w')"
proof (induction fn r d i w rule: retry_loop.induct)
  case (1 fn retries delay i w)
  show ?case
  proof (cases "fn w")
    case (Pair out w1)
    show ?thesis
    proof (cases out)
      case (Inl error)
      show ?thesis
      proof (cases "int i < retries \<and> status_of error = Some 429 \<and> int i < retries - 1")
        case True
        with Pair Inl "1.prems"
        have "retry_loop fn retries delay (Suc i) (setTimeout (delay * 2 ^ i) w1) = (Threw e, w')"
          by (simp add: retry_loop_backoff)
        with "1.IH" [of out w1 error] True Pair Inl show ?thesis
          by simp
      next
        case False
        with Pair Inl "1.prems" show ?thesis
          by (subst (asm) retry_loop.simps) (auto split: if_splits)
      qed
    next
      case (Inr res)
      with Pair "1.prems" show ?thesis
        by (subst (asm) retry_loop.simps) (auto split: if_splits)
    qed
  qed
qed


lemma retry_loop_extends:
  assumes fn: "\<And>w. timers (snd (fn w)) = timers w \<and> (\<exists>c. sent (snd (fn w)) = sent w @ [c])"
  shows "\<exists>ts cs. timers (snd (retry_loop fn r d i w)) = timers w @ ts
                \<and> sent (snd (retry_loop fn r d i w)) = sent w @ cs
                \<and> (int i < r \<longrightarrow> cs \<noteq> [])"
  using fn
proof (induction fn r d i w rule: retry_loop.induct)
  case (1 fn retries delay i w)
  note step = "1.prems" [of w]
  show ?case
  proof (cases "int i < retries")
    case False
    then show ?thesis by (simp add: retry_loop_exhausted)
  next
    case True
    obtain out w1 where run: "fn w = (out, w1)" by (cases "fn w")
    from step run obtain c where w1: "timers w1 = timers w" "sent w1 = sent w @ [c]"
      by auto
    show ?thesis
    proof (cases out)
      case (Inr res)
      with True run have "retry_loop fn retries delay i w = (Returned (Some res), w1)"
        by (simp add: retry_loop_resolved)
      with w1 show ?thesis by simp
    next
      case (Inl error)
      show ?thesis
      proof (cases "status_of error = Some 429 \<and> int i < retries - 1")
        case False
        with True run Inl have "retry_loop fn retries delay i w = (Threw error, w1)"
          by (simp add: retry_loop_rethrow)
        with w1 show ?thesis by simp
      next
        case again: True
        let ?w2 = "setTimeout (delay * 2 ^ i) w1"
        from run Inl again have unfold:
          "retry_loop fn retries delay i w = retry_loop fn retries delay (Suc i) ?w2"
          by (simp add: retry_loop_backoff)
        from "1.IH" [of out w1 error] True run Inl again "1.prems"
        obtain ts cs where
          "timers (snd (retry_loop fn retries delay (Suc i) ?w2)) = timers ?w2 @ ts"
          "sent (snd (retry_loop fn retries delay (Suc i) ?w2)) = sent ?w2 @ cs"
          by auto
        with w1 unfold show ?thesis
          by (simp add: setTimeout_def)
      qed
    qed
  qed
qed

lemma return_keeps_world:
  "snd (return_data p) = snd p" "snd (return_data_data p) = snd p"
  by (auto simp: return_data_def return_data_data_def
      split: prod.split completion.split option.split sum.split)

lemma attempt_thrown_normalized:
  assumes "attempt send c w = (Threw e, w')"
  shows "truthy (userMessage e)"
proof -
  obtain v u b where api: "closure_of send c = api_request send v u b"
    using closure_of_api by blast
  have "\<exists>w0. api_request send v u b w0 = (Inl e, w')"
  proof (cases "is_login c")
    case True
    with assms api show ?thesis
      by (auto simp: attempt_def awaited_def split: prod.splits sum.splits)
  next
    case False
    with assms api show ?thesis
      by (auto simp: attempt_def retryRequest_def dest: retry_loop_thrown_by_fn)
  qed
  then show ?thesis
    by (auto dest: api_request_rejects_normalized)
qed

lemma retry_loop_never_undefined:
  "int i < r \<Longrightarrow> fst (retry_loop fn r d i w) \<noteq> Returned None"
proof (induction fn r d i w rule: retry_loop.induct)
  case (1 fn retries delay i w)
  obtain out w1 where run: "fn w = (out, w1)" by (cases "fn w")
  show ?case
  proof (cases out)
    case (Inr res)
    with run "1.prems" show ?thesis by (simp add: retry_loop_resolved)
  next
    case (Inl error)
    show ?thesis
    proof (cases "status_of error = Some 429 \<and> int i < retries - 1")
      case False
      with run Inl "1.prems" show ?thesis by (simp add: retry_loop_rethrow)
    next
      case True
      then have "int (Suc i) < retries" by simp
      with "1.IH" [of out w1 error] "1.prems" run Inl True
      have "fst (retry_loop fn retries delay (Suc i) (setTimeout (delay * 2 ^ i) w1))
              \<noteq> Returned None"
        by simp
      with run Inl True show ?thesis by (simp add: retry_loop_backoff)
    qed
  qed
qed

lemma attempt_never_undefined: "fst (attempt send c w) \<noteq> Returned None"
proof (cases "is_login c")
  case True
  then show ?thesis
    by (simp add: attempt_def awaited_def split: prod.split sum.split)
next
  case False
  then show ?thesis
    by (simp add: attempt_def retryRequest_def retry_loop_never_undefined)
qed

text \<open>
  C1, as amended. The request of an operation either resolves with a response or is
  rejected with a failure that has been through the response interceptor and carries a
  truthy \<open>userMessage\<close>. On a response, a delete operation returns the body and any other
  operation returns the \<open>data\<close> field of the body, except that a body that is \<open>null\<close> or
  \<open>undefined\<close> makes it throw the fixed object \<open>connection_fallback\<close>. On a rejection the
  operation throws the body of the failure's response when that body is truthy, and
  \<open>connection_fallback\<close> when the body is falsy or there is no response. What reaches the
  caller is the body or the fixed object, never the failure with its \<open>userMessage\<close>.
\<close>

theorem operation_outcomes:
  assumes "attempt send c w = (a, w')"
  shows "(\<exists>res. a = Returned (Some res)
              \<and> invoke send c w
                  = (if is_delete c then Returned (data res)
                     else if data res = JNull \<or> data res = JUndefined
                          then Threw connection_fallback
                          else Returned (opt_member (data res) ''data''),
                     w'))
       \<or> (\<exists>e. a = Threw e \<and> truthy (userMessage e)
              \<and> invoke send c w
                  = (Threw (case response e of
                              Some r \<Rightarrow> if truthy (data r) then data r else connection_fallback
                            | None \<Rightarrow> connection_fallback),
                     w'))"
proof (cases a)
  case (Threw e)
  with assms have norm: "truthy (userMessage e)"
    by (auto dest: attempt_thrown_normalized)
  from assms Threw have "invoke send c w = (Threw (rethrown (Rejected e)), w')"
    by (simp add: invoke_shape return_data_def return_data_data_def)
  then have "invoke send c w
               = (Threw (case response e of
                           Some r \<Rightarrow> if truthy (data r) then data r else connection_fallback
                         | None \<Rightarrow> connection_fallback),
                  w')"
    by (simp add: rethrown_def js_or_def split: option.split)
  with Threw norm show ?thesis by simp
next
  case (Returned x)
  from attempt_never_undefined [of send c w] assms Returned
  obtain res where res: "x = Some res"
    by (cases x) auto
  have unwrap: "return_data_data (Returned (Some res), w')
                  = (if data res = JNull \<or> data res = JUndefined
                     then Threw connection_fallback
                     else Returned (opt_member (data res) ''data''),
                     w')"
    by (cases "data res")
       (simp_all add: return_data_data_def rethrown_def js_or_def connection_fallback_def)
  from assms Returned res unwrap
  have "invoke send c w
          = (if is_delete c then Returned (data res)
             else if data res = JNull \<or> data res = JUndefined
                  then Threw connection_fallback
                  else Returned (opt_member (data res) ''data''),
             w')"
    by (simp add: invoke_shape return_data_def)
  with Returned res show ?thesis by simp
qed



lemma awaited_keeps_world: "snd (awaited p) = snd p"
  by (auto simp: awaited_def split: prod.split sum.split)

lemma retried_after_429:
  assumes "\<not> is_login c" and "closure_of send c w = (Inl e, w1)" and "status_of e = Some 429"
  shows "\<exists>ts cs. timers (snd (invoke send c w)) = timers w @ 1000 # ts
                \<and> sent (snd (invoke send c w)) = sent w @ cs \<and> 2 \<le> length cs"
proof -
  obtain v u b where api: "closure_of send c = api_request send v u b"
    using closure_of_api by blast
  let ?fn = "api_request send v u b"
  let ?w2 = "setTimeout (1000 * 2 ^ 0) w1"
  have fn: "timers (snd (?fn w)) = timers w \<and> (\<exists>c. sent (snd (?fn w)) = sent w @ [c])" for w
    by (simp add: api_request_effects)
  from assms(2) api fn [of w] obtain c1 where w1: "timers w1 = timers w" "sent w1 = sent w @ [c1]"
    by auto
  have "retry_loop ?fn 3 1000 0 w = retry_loop ?fn 3 1000 (Suc 0) ?w2"
    using assms(2,3) api by (simp add: retry_loop_backoff)
  moreover obtain ts cs where
    "timers (snd (retry_loop ?fn 3 1000 (Suc 0) ?w2)) = timers ?w2 @ ts"
    "sent (snd (retry_loop ?fn 3 1000 (Suc 0) ?w2)) = sent ?w2 @ cs" "cs \<noteq> []"
    using retry_loop_extends [of ?fn 3 1000 "Suc 0" ?w2] fn by auto
  ultimately have "timers (snd (retryRequest ?fn 3 1000 w)) = timers w @ 1000 # ts"
    and "sent (snd (retryRequest ?fn 3 1000 w)) = sent w @ c1 # cs" and "2 \<le> length (c1 # cs)"
    using w1 by (auto simp: retryRequest_def setTimeout_def Suc_le_eq)
  with assms(1) api show ?thesis
    by (simp add: invoke_shape attempt_def return_keeps_world)
qed

text \<open>
  C10. \<open>login\<close> hands exactly one request to the network and awaits no timer, whatever
  the outcome; when that request fails with status 429 the operation throws at once,
  leaving the world as the single request left it. Every other operation whose first
  request fails with status 429 waits 1000 and sends at least a second request.
\<close>

theorem login_not_retried:
  "(let config = request_interceptor w
                   (api_config POST ''/auth/login''
                      (JObj [(''email'', email), (''password'', password)]));
        w' = snd (login send email password w)
    in sent w' = sent w @ [config] \<and> timers w' = timers w
       \<and> (\<forall>error n' r.
             send config (net w) = (Inl error, n') \<and> response error = Some r \<and> status r = 429
             \<longrightarrow> login send email password w
                   = (Threw (js_or (data r) connection_fallback),
                      w\<lparr>sent := sent w @ [config], net := n'\<rparr>)))
   \<and> (\<forall>c e w1. \<not> is_login c \<and> closure_of send c w = (Inl e, w1) \<and> status_of e = Some 429
         \<longrightarrow> (\<exists>ts cs. timers (snd (invoke send c w)) = timers w @ 1000 # ts
                     \<and> sent (snd (invoke send c w)) = sent w @ cs \<and> 2 \<le> length cs))"
proof -
  let ?config = "request_interceptor w
                   (api_config POST ''/auth/login''
                      (JObj [(''email'', email), (''password'', password)]))"
  have once: "sent (snd (login send email password w)) = sent w @ [?config]"
    and still: "timers (snd (login send email password w)) = timers w"
    by (simp_all add: login_def api_post_def return_keeps_world awaited_keeps_world
        api_request_effects)
  have limited: "login send email password w
                   = (Threw (js_or (data r) connection_fallback),
                      w\<lparr>sent := sent w @ [?config], net := n'\<rparr>)"
    if "send ?config (net w) = (Inl error, n')" "response error = Some r" "status r = 429"
    for error n' r
    using that
    by (simp add: login_def api_post_def api_request_def response_rejected_def awaited_def
        return_data_data_def rethrown_def Let_def)
  from once still limited retried_after_429 [of _ send w] show ?thesis
    unfolding Let_def by blast
qed


theorem operation_outcomes_witness:
  "attempt scripted GetUsers
       (browser Map.empty ''/users''
          [Answer \<lparr>status = 403, data = JObj [(''message'', JStr ''forbidden'')]\<rparr>])
     = (Threw \<lparr>response = Some \<lparr>status = 403, data = JObj [(''message'', JStr ''forbidden'')]\<rparr>,
               request = True, code = None,
               userMessage = JStr (''No tienes permisos para realizar esta acci''
                                   @ [CHR 0xF3] @ ''n''),
               originalError =
                 \<lparr>response = Some \<lparr>status = 403,
                                    data = JObj [(''message'', JStr ''forbidden'')]\<rparr>,
                  request = True, code = None\<rparr>\<rparr>,
        \<lparr>localStorage = Map.empty, pathname = ''/users'', navigations = [], timers = [],
         sent = [api_config GET ''/users'' JUndefined], net = []\<rparr>)
   \<and> invoke scripted GetUsers
       (browser Map.empty ''/users''
          [Answer \<lparr>status = 403, data = JObj [(''message'', JStr ''forbidden'')]\<rparr>])
     = (Threw (JObj [(''message'', JStr ''forbidden'')]),
        \<lparr>localStorage = Map.empty, pathname = ''/users'', navigations = [], timers = [],
         sent = [api_config GET ''/users'' JUndefined], net = []\<rparr>)
   \<and> invoke scripted GetUsers
       (browser Map.empty ''/users'' [Answer \<lparr>status = 200, data = JNull\<rparr>])
     = (Threw connection_fallback,
        \<lparr>localStorage = Map.empty, pathname = ''/users'', navigations = [], timers = [],
         sent = [api_config GET ''/users'' JUndefined], net = []\<rparr>)
   \<and> invoke scripted GetUsers
       (browser Map.empty ''/users''
          [Answer \<lparr>status = 200, data = JObj [(''data'', JArr [JStr ''ana''])]\<rparr>])
     = (Returned (JArr [JStr ''ana'']),
        \<lparr>localStorage = Map.empty, pathname = ''/users'', navigations = [], timers = [],
         sent = [api_config GET ''/users'' JUndefined], net = []\<rparr>)"
proof -
  let ?body = "JObj [(''message'', JStr ''forbidden'')]"
  let ?raw = "\<lparr>response = Some \<lparr>status = 403, data = ?body\<rparr>, request = True, code = None\<rparr>"
  let ?e = "\<lparr>response = Some \<lparr>status = 403, data = ?body\<rparr>, request = True, code = None,
               userMessage = JStr (''No tienes permisos para realizar esta acci''
                                   @ [CHR 0xF3] @ ''n''),
               originalError = ?raw\<rparr>"
  let ?w' = "\<lparr>localStorage = Map.empty, pathname = ''/users'', navigations = [], timers = [],
         sent = [api_config GET ''/users'' JUndefined], net = []\<rparr> :: reply list world"
  let ?w = "browser Map.empty ''/users'' [Answer \<lparr>status = 403, data = ?body\<rparr>]"
  let ?u = "browser Map.empty ''/users'' [Answer \<lparr>status = 200, data = JNull\<rparr>]"
  let ?ok = "\<lparr>status = 200, data = JObj [(''data'', JArr [JStr ''ana''])]\<rparr>"
  let ?v = "browser Map.empty ''/users'' [Answer ?ok]"
  have a1: "attempt scripted GetUsers ?w = (Threw ?e, ?w')"
    by (simp add: attempt_def is_login_def pipeline_defs retry_loop.simps
        request_interceptor_def)
  have a2: "attempt scripted GetUsers ?u = (Returned (Some \<lparr>status = 200, data = JNull\<rparr>), ?w')"
    by (simp add: attempt_def is_login_def pipeline_defs retry_loop.simps
        request_interceptor_def)
  have a3: "attempt scripted GetUsers ?v = (Returned (Some ?ok), ?w')"
    by (simp add: attempt_def is_login_def pipeline_defs retry_loop.simps
        request_interceptor_def)
  have b1: "invoke scripted GetUsers ?w = (Threw ?body, ?w')"
    using operation_outcomes [OF a1] by simp
  have b2: "invoke scripted GetUsers ?u = (Threw connection_fallback, ?w')"
    using operation_outcomes [OF a2] by simp
  have b3: "invoke scripted GetUsers ?v = (Returned (JArr [JStr ''ana'']), ?w')"
    using operation_outcomes [OF a3] by simp
  from a1 b1 b2 b3 show ?thesis by blast
qed

text \<open>
  C1 as stated fails: \<open>getUsers\<close> against a server that answers 403 with the body
  \<open>{message: "forbidden"}\<close> throws that body, which has no \<open>userMessage\<close>.
\<close>

theorem failure_without_userMessage:
  "fst (getUsers scripted
          (browser Map.empty ''/users''
             [Answer \<lparr>status = 403, data = JObj [(''message'', JStr ''forbidden'')]\<rparr>]))
     = Threw (JObj [(''message'', JStr ''forbidden'')])
   \<and> opt_member (JObj [(''message'', JStr ''forbidden'')]) ''userMessage'' = JUndefined"
  by (simp add: getUsers_def pipeline_defs retry_loop.simps request_interceptor_def)


text \<open>
  C8, as amended. \<open>deleteApartment(5)\<close> against a server that answers 404 with the body
  \<open>{error: "not found"}\<close> makes one request, \<open>DELETE /apartments/5\<close>, and throws the body
  \<open>{error: "not found"}\<close> itself. The failure that \<open>api.delete\<close> rejects with inside the
  operation carries the message \<open>Recurso no encontrado\<close> and the response.
\<close>

theorem delete_404_scenario:
  "deleteApartment scripted 5
       (browser store path
          (Answer \<lparr>status = 404, data = JObj [(''error'', JStr ''not found'')]\<rparr> # rest))
     = (Threw (JObj [(''error'', JStr ''not found'')]),
        \<lparr>localStorage = store, pathname = path, navigations = [], timers = [],
         sent = [request_interceptor (browser store path rest)
                   (api_config DELETE ''/apartments/5'' JUndefined)],
         net = rest\<rparr>)
   \<and> fst (api_delete scripted ''/apartments/5''
            (browser store path
               (Answer \<lparr>status = 404, data = JObj [(''error'', JStr ''not found'')]\<rparr> # rest)))
     = Inl \<lparr>response = Some \<lparr>status = 404, data = JObj [(''error'', JStr ''not found'')]\<rparr>,
            request = True, code = None,
            userMessage = JStr ''Recurso no encontrado'',
            originalError =
              \<lparr>response = Some \<lparr>status = 404, data = JObj [(''error'', JStr ''not found'')]\<rparr>,
               request = True, code = None\<rparr>\<rparr>"
proof -
  have five: "show_int 5 = ''5''"
    by code_simp
  show ?thesis
    by (simp add: deleteApartment_def pipeline_defs retry_loop.simps request_interceptor_def five)
qed

text \<open>
  C8 as stated fails: what \<open>deleteApartment(5)\<close> throws is the body, and the body has no
  \<open>userMessage\<close>.
\<close>

theorem delete_404_without_userMessage:
  "fst (deleteApartment scripted 5
          (browser Map.empty ''/apartments''
             [Answer \<lparr>status = 404, data = JObj [(''error'', JStr ''not found'')]\<rparr>]))
     = Threw (JObj [(''error'', JStr ''not found'')])
   \<and> opt_member (JObj [(''error'', JStr ''not found'')]) ''userMessage'' = JUndefined
   \<and> JUndefined \<noteq> JStr ''Recurso no encontrado''"
proof -
  have five: "show_int 5 = ''5''"
    by code_simp
  show ?thesis
    by (simp add: deleteApartment_def pipeline_defs retry_loop.simps request_interceptor_def five)
qed

theorem login_not_retried_witness:
  "login scripted (JStr ''a@b.c'') (JStr ''pw'')
       (browser Map.empty ''/login''
          [Answer \<lparr>status = 429, data = JObj [(''error'', JStr ''slow down'')]\<rparr>,
           Answer \<lparr>status = 200, data = JObj [(''data'', JObj [(''token'', JStr ''t'')])]\<rparr>])
     = (Threw (JObj [(''error'', JStr ''slow down'')]),
        \<lparr>localStorage = Map.empty, pathname = ''/login'', navigations = [], timers = [],
         sent = [api_config POST ''/auth/login''
                   (JObj [(''email'', JStr ''a@b.c''), (''password'', JStr ''pw'')])],
         net = [Answer \<lparr>status = 200,
                        data = JObj [(''data'', JObj [(''token'', JStr ''t'')])]\<rparr>]\<rparr>)
   \<and> (\<exists>ts cs. timers (snd (invoke scripted GetUsers
                  (browser Map.empty ''/login''
                     [Answer \<lparr>status = 429, data = JObj [(''error'', JStr ''slow down'')]\<rparr>,
                      Answer \<lparr>status = 200,
                              data = JObj [(''data'', JObj [(''token'', JStr ''t'')])]\<rparr>])))
                 = 1000 # ts
              \<and> sent (snd (invoke scripted GetUsers
                  (browser Map.empty ''/login''
                     [Answer \<lparr>status = 429, data = JObj [(''error'', JStr ''slow down'')]\<rparr>,
                      Answer \<lparr>status = 200,
                              data = JObj [(''data'', JObj [(''token'', JStr ''t'')])]\<rparr>])))
                 = cs
              \<and> 2 \<le> length cs)"
proof -
  let ?slow = "\<lparr>status = 429, data = JObj [(''error'', JStr ''slow down'')]\<rparr>"
  let ?ok = "\<lparr>status = 200, data = JObj [(''data'', JObj [(''token'', JStr ''t'')])]\<rparr>"
  let ?w = "browser Map.empty ''/login'' [Answer ?slow, Answer ?ok]"
  let ?config = "request_interceptor ?w
                   (api_config POST ''/auth/login''
                      (JObj [(''email'', JStr ''a@b.c''), (''password'', JStr ''pw'')]))"
  let ?raw = "\<lparr>response = Some ?slow, request = True, code = None\<rparr>"
  note inst = login_not_retried [of ?w "JStr ''a@b.c''" "JStr ''pw''" scripted]
  have h1: "scripted ?config (net ?w) = (Inl ?raw, [Answer ?ok])"
    by (simp add: browser_def axios_settle_def)
  have h2: "response ?raw = Some ?slow" "status ?slow = 429"
    by simp_all
  from inst h1 h2
  have "login scripted (JStr ''a@b.c'') (JStr ''pw'') ?w
          = (Threw (js_or (data ?slow) connection_fallback),
             ?w\<lparr>sent := sent ?w @ [?config], net := [Answer ?ok]\<rparr>)"
    unfolding Let_def by blast
  then have a: "login scripted (JStr ''a@b.c'') (JStr ''pw'') ?w
     = (Threw (JObj [(''error'', JStr ''slow down'')]),
        \<lparr>localStorage = Map.empty, pathname = ''/login'', navigations = [], timers = [],
         sent = [api_config POST ''/auth/login''
                   (JObj [(''email'', JStr ''a@b.c''), (''password'', JStr ''pw'')])],
         net = [Answer ?ok]\<rparr>)"
    by (simp add: js_or_def browser_def request_interceptor_def)
  have g1: "\<not> is_login GetUsers"
    by (simp add: is_login_def)
  have g2: "closure_of scripted GetUsers ?w
              = (Inl \<lparr>response = Some ?slow, request = True, code = None,
                      userMessage = errorMessage_of ?raw, originalError = ?raw\<rparr>,
                 ?w\<lparr>sent := [api_config GET ''/users'' JUndefined], net := [Answer ?ok]\<rparr>)"
    by (simp add: api_get_def api_request_def response_rejected_def browser_def
        axios_settle_def request_interceptor_def)
  have g3: "status_of \<lparr>response = Some ?slow, request = True, code = None,
                      userMessage = errorMessage_of ?raw, originalError = ?raw\<rparr> = Some 429"
    by (simp add: status_of_def)
  from inst g1 g2 g3
  have "\<exists>ts cs. timers (snd (invoke scripted GetUsers ?w)) = timers ?w @ 1000 # ts
              \<and> sent (snd (invoke scripted GetUsers ?w)) = sent ?w @ cs \<and> 2 \<le> length cs"
    unfolding Let_def by blast
  then have b: "\<exists>ts cs. timers (snd (invoke scripted GetUsers ?w)) = 1000 # ts
              \<and> sent (snd (invoke scripted GetUsers ?w)) = cs \<and> 2 \<le> length cs"
    by (simp add: browser_def)
  from a b show ?thesis by blast
qed

end
